theory Spec2Isabelle
  imports Complex_Main
begin

section \<open>JavaScript numbers\<close>

text \<open>
  The component of \<^verbatim>\<open>src/app/page.tsx\<close> computes with JavaScript numbers. A number is
  modelled as a finite value, one of the two infinities, or NaN. Finite values are exact
  reals: the rounding of IEEE doubles and the sign of zero are abstracted (a zero divisor
  is taken as +0). What the source's operators do outside the finite values is written
  out: a division by zero gives an infinity or NaN, never an exception.
\<close>

datatype number = Num real | PosInf | NegInf | NaN

text \<open>The operator \<^verbatim>\<open>/\<close>.\<close>

fun jdiv :: "number \<Rightarrow> number \<Rightarrow> number" where
  "jdiv NaN _ = NaN"
| "jdiv _ NaN = NaN"
| "jdiv (Num a) (Num b) =
     (if b \<noteq> 0 then Num (a / b)
      else if 0 < a then PosInf else if a < 0 then NegInf else NaN)"
| "jdiv (Num a) PosInf = Num 0"
| "jdiv (Num a) NegInf = Num 0"
| "jdiv PosInf (Num b) = (if 0 \<le> b then PosInf else NegInf)"
| "jdiv NegInf (Num b) = (if 0 \<le> b then NegInf else PosInf)"
| "jdiv PosInf PosInf = NaN"
| "jdiv PosInf NegInf = NaN"
| "jdiv NegInf PosInf = NaN"
| "jdiv NegInf NegInf = NaN"

text \<open>The operator \<^verbatim>\<open>*\<close>.\<close>

fun jmul :: "number \<Rightarrow> number \<Rightarrow> number" where
  "jmul NaN _ = NaN"
| "jmul _ NaN = NaN"
| "jmul (Num a) (Num b) = Num (a * b)"
| "jmul (Num a) PosInf = (if 0 < a then PosInf else if a < 0 then NegInf else NaN)"
| "jmul (Num a) NegInf = (if 0 < a then NegInf else if a < 0 then PosInf else NaN)"
| "jmul PosInf (Num b) = (if 0 < b then PosInf else if b < 0 then NegInf else NaN)"
| "jmul NegInf (Num b) = (if 0 < b then NegInf else if b < 0 then PosInf else NaN)"
| "jmul PosInf PosInf = PosInf"
| "jmul PosInf NegInf = NegInf"
| "jmul NegInf PosInf = NegInf"
| "jmul NegInf NegInf = PosInf"

text \<open>The binary operator \<^verbatim>\<open>-\<close>.\<close>

fun jsub :: "number \<Rightarrow> number \<Rightarrow> number" where
  "jsub NaN _ = NaN"
| "jsub _ NaN = NaN"
| "jsub (Num a) (Num b) = Num (a - b)"
| "jsub (Num a) PosInf = NegInf"
| "jsub (Num a) NegInf = PosInf"
| "jsub PosInf (Num b) = PosInf"
| "jsub NegInf (Num b) = NegInf"
| "jsub PosInf PosInf = NaN"
| "jsub PosInf NegInf = PosInf"
| "jsub NegInf PosInf = NegInf"
| "jsub NegInf NegInf = NaN"

text \<open>The comparison \<^verbatim>\<open>>\<close>: false as soon as one side is NaN.\<close>

fun jgt :: "number \<Rightarrow> number \<Rightarrow> bool" where
  "jgt NaN _ = False"
| "jgt _ NaN = False"
| "jgt (Num a) (Num b) = (b < a)"
| "jgt (Num a) PosInf = False"
| "jgt (Num a) NegInf = True"
| "jgt PosInf (Num b) = True"
| "jgt NegInf (Num b) = False"
| "jgt PosInf PosInf = False"
| "jgt PosInf NegInf = True"
| "jgt NegInf PosInf = False"
| "jgt NegInf NegInf = False"

text \<open>\<^verbatim>\<open>Math.max\<close> of two numbers: NaN as soon as one argument is NaN.\<close>

fun Math_max :: "number \<Rightarrow> number \<Rightarrow> number" where
  "Math_max a b = (if a = NaN \<or> b = NaN then NaN else if jgt b a then b else a)"

text \<open>A number that is neither an infinity nor NaN.\<close>

fun finite_number :: "number \<Rightarrow> bool" where
  "finite_number (Num a) = True"
| "finite_number _ = False"

section \<open>Images, crop regions, canvases, blobs and files\<close>

text \<open>
  An \<^verbatim>\<open>HTMLImageElement\<close> as far as the component reads it: the displayed size
  (\<^verbatim>\<open>width\<close>, \<^verbatim>\<open>height\<close>), the natural size, and the source it was decoded from.
\<close>

record image =
  img_width :: nat
  img_height :: nat
  naturalWidth :: nat
  naturalHeight :: nat
  img_src :: string

text \<open>The \<^verbatim>\<open>Crop\<close> of react-image-crop: a rectangle with its unit tag.\<close>

datatype crop_unit = Percent | Px

record crop =
  crop_unit :: crop_unit
  crop_x :: number
  crop_y :: number
  crop_width :: number
  crop_height :: number

text \<open>
  The drawing calls the component issues on a 2D context: \<^verbatim>\<open>fillRect\<close> (with the fill
  style in force), \<^verbatim>\<open>drawImage\<close> with nine arguments (crop stage) and with five
  arguments (resize stage).
\<close>

datatype draw_op =
    FillRect string number number number number
  | DrawImage9 image number number number number number number number number
  | DrawImage5 image number number number number

text \<open>
  A canvas: its width and height in pixels (the DOM type is \<^verbatim>\<open>unsigned long\<close>), the
  current fill style, and the drawing calls issued on its bitmap, oldest first. A canvas
  made by \<^verbatim>\<open>document.createElement('canvas')\<close> is 300 by 150 with nothing drawn.
\<close>

record canvas =
  cwidth :: nat
  cheight :: nat
  fillStyle :: string
  ops :: "draw_op list"

definition createCanvas :: canvas where
  "createCanvas = \<lparr>cwidth = 300, cheight = 150, fillStyle = ''#000000'', ops = []\<rparr>"

text \<open>
  An assignment \<^verbatim>\<open>canvas.width = v\<close> converts the number to an \<^verbatim>\<open>unsigned long\<close>: NaN
  and the infinities become 0, a finite value loses its fraction (towards zero) and is
  taken modulo \<open>2 ^ 32\<close>.
\<close>

fun toUint32 :: "number \<Rightarrow> nat" where
  "toUint32 (Num a) = nat ((if 0 \<le> a then \<lfloor>a\<rfloor> else - \<lfloor>- a\<rfloor>) mod 2 ^ 32)"
| "toUint32 _ = 0"

text \<open>
  The attribute then keeps the converted value when it is at most 2147483647 and falls
  back to its default otherwise.
\<close>

definition reflectUnsignedLong :: "nat \<Rightarrow> number \<Rightarrow> nat" where
  "reflectUnsignedLong dflt v = (let n = toUint32 v in if n \<le> 2147483647 then n else dflt)"

text \<open>
  Assigning the width or the height of a canvas also clears its bitmap and resets its
  context: the drawing calls so far are gone and the fill style is black again. The
  default width is 300, the default height 150.
\<close>

definition setWidth :: "canvas \<Rightarrow> number \<Rightarrow> canvas" where
  "setWidth c v = c\<lparr>cwidth := reflectUnsignedLong 300 v, fillStyle := ''#000000'', ops := []\<rparr>"

definition setHeight :: "canvas \<Rightarrow> number \<Rightarrow> canvas" where
  "setHeight c v = c\<lparr>cheight := reflectUnsignedLong 150 v, fillStyle := ''#000000'', ops := []\<rparr>"

text \<open>
  A blob is either the bytes of a file the user selected (or that the compression library
  returned), named by an opaque string, or what \<^verbatim>\<open>canvas.toBlob\<close> produced: the encoding
  of a canvas for a MIME type and a quality.
\<close>

datatype blob =
    Bytes string
  | CanvasBlob canvas string number

text \<open>
  \<^verbatim>\<open>new File(parts, name, {type})\<close>. A part is a blob, or \<^verbatim>\<open>null\<close> where the code lets
  one through.
\<close>

record jsfile =
  parts :: "blob option list"
  name :: string
  ftype :: string

text \<open>The options object handed to \<^verbatim>\<open>imageCompression\<close>.\<close>

record options =
  maxSizeMB :: number
  maxWidthOrHeight :: number
  useWebWorker :: bool

section \<open>Errors, promises and the environment\<close>

text \<open>
  The values the stages reject with: the \<^verbatim>\<open>Error('Canvas is empty')\<close> of the crop stage,
  whatever \<^verbatim>\<open>imageCompression\<close> rejects with, and the error events of the
  \<^verbatim>\<open>FileReader\<close> and of the \<^verbatim>\<open>img\<close> element in the resize stage.
\<close>

datatype error =
    CanvasEmpty
  | CompressionFailed string
  | ReaderError
  | ImageLoadError

text \<open>
  The state a promise ends in. \<open>Pending\<close> is a promise that never settles: an exception
  thrown inside an event handler reaches neither \<^verbatim>\<open>resolve\<close> nor \<^verbatim>\<open>reject\<close>.
\<close>

datatype 'a promise = Resolved 'a | Rejected error | Pending

text \<open>
  What the browser and the compression library decide: whether \<^verbatim>\<open>getContext('2d')\<close>
  gives a context for a canvas, whether \<^verbatim>\<open>toBlob\<close> has data for a canvas, what
  \<^verbatim>\<open>imageCompression\<close> returns, what \<^verbatim>\<open>readAsDataURL\<close> reads (\<open>None\<close>: the reader's
  error event), which image a data URL decodes to (\<open>None\<close>: the element's error event),
  and the byte length of a blob.
\<close>

record env =
  getContext :: "canvas \<Rightarrow> bool"
  serializes :: "canvas \<Rightarrow> string \<Rightarrow> number \<Rightarrow> bool"
  imageCompression :: "jsfile \<Rightarrow> options \<Rightarrow> error + jsfile"
  readAsDataURL :: "jsfile \<Rightarrow> string option"
  loadImage :: "string \<Rightarrow> image option"
  blobSize :: "blob \<Rightarrow> nat"

text \<open>\<^verbatim>\<open>canvas.toBlob(callback, type, quality)\<close>: the value the callback receives.\<close>

definition toBlob :: "env \<Rightarrow> canvas \<Rightarrow> string \<Rightarrow> number \<Rightarrow> blob option" where
  "toBlob e c ty q = (if serializes e c ty q then Some (CanvasBlob c ty q) else None)"

text \<open>\<^verbatim>\<open>file.size\<close>: a \<^verbatim>\<open>null\<close> part is stored as the four characters of its name.\<close>

fun partSize :: "env \<Rightarrow> blob option \<Rightarrow> nat" where
  "partSize e None = 4"
| "partSize e (Some b) = blobSize e b"

definition fileSize :: "env \<Rightarrow> jsfile \<Rightarrow> nat" where
  "fileSize e f = sum_list (map (partSize e) (parts f))"

section \<open>The crop stage\<close>

text \<open>
  \<^verbatim>\<open>cropImage\<close>, lines 58 to 78: the new canvas after it has been sized and, when a
  context was obtained, drawn on.
\<close>

definition cropCanvas :: "env \<Rightarrow> image \<Rightarrow> crop \<Rightarrow> canvas" where
  "cropCanvas e img crop =
     (let canvas = createCanvas;
          scaleX = jdiv (Num (real (naturalWidth img))) (Num (real (img_width img)));
          scaleY = jdiv (Num (real (naturalHeight img))) (Num (real (img_height img)));
          canvas = setWidth canvas (crop_width crop);
          canvas = setHeight canvas (crop_height crop)
      in if getContext e canvas
         then canvas\<lparr>ops := ops canvas @
                [DrawImage9 img
                   (jmul (crop_x crop) scaleX) (jmul (crop_y crop) scaleY)
                   (jmul (crop_width crop) scaleX) (jmul (crop_height crop) scaleY)
                   (Num 0) (Num 0) (crop_width crop) (crop_height crop)]\<rparr>
         else canvas)"

text \<open>\<^verbatim>\<open>cropImage\<close>, lines 80 to 92: the promise around \<^verbatim>\<open>toBlob\<close>.\<close>

definition cropImage :: "env \<Rightarrow> image \<Rightarrow> crop \<Rightarrow> string \<Rightarrow> jsfile promise" where
  "cropImage e img crop fileName =
     (case toBlob e (cropCanvas e img crop) ''image/jpeg'' (Num 1) of
        None \<Rightarrow> Rejected CanvasEmpty
      | Some blob \<Rightarrow> Resolved \<lparr>parts = [Some blob], name = fileName, ftype = ''image/jpeg''\<rparr>)"

section \<open>The resize stage\<close>

text \<open>Lines 104 to 118 of \<^verbatim>\<open>resizeImage\<close>: the six numbers computed before drawing.\<close>

record layout =
  imageAspectRatio :: number
  targetAspectRatio :: number
  drawWidth :: number
  drawHeight :: number
  offsetX :: number
  offsetY :: number

definition resizeLayout :: "image \<Rightarrow> number \<Rightarrow> number \<Rightarrow> layout" where
  "resizeLayout img width height =
     (let imageAspectRatio = jdiv (Num (real (img_width img))) (Num (real (img_height img)));
          targetAspectRatio = jdiv width height
      in if jgt imageAspectRatio targetAspectRatio
         then (let drawHeight = jdiv width imageAspectRatio
               in \<lparr>imageAspectRatio = imageAspectRatio, targetAspectRatio = targetAspectRatio,
                   drawWidth = width, drawHeight = drawHeight,
                   offsetX = Num 0, offsetY = jdiv (jsub height drawHeight) (Num 2)\<rparr>)
         else (let drawWidth = jmul height imageAspectRatio
               in \<lparr>imageAspectRatio = imageAspectRatio, targetAspectRatio = targetAspectRatio,
                   drawWidth = drawWidth, drawHeight = height,
                   offsetX = jdiv (jsub width drawWidth) (Num 2), offsetY = Num 0\<rparr>))"

text \<open>Lines 120 and 121: the shared canvas takes the target size.\<close>

definition sizeCanvas :: "canvas \<Rightarrow> number \<Rightarrow> number \<Rightarrow> canvas" where
  "sizeCanvas canvas width height = setHeight (setWidth canvas width) height"

text \<open>Lines 123 to 125: white background, then the image at the computed place.\<close>

definition paintCanvas :: "canvas \<Rightarrow> image \<Rightarrow> number \<Rightarrow> number \<Rightarrow> canvas" where
  "paintCanvas canvas img width height =
     (let l = resizeLayout img width height;
          canvas = canvas\<lparr>fillStyle := ''white''\<rparr>;
          canvas = canvas\<lparr>ops := ops canvas @
                     [FillRect (fillStyle canvas) (Num 0) (Num 0) width height]\<rparr>
      in canvas\<lparr>ops := ops canvas @
           [DrawImage5 img (offsetX l) (offsetY l) (drawWidth l) (drawHeight l)]\<rparr>)"

text \<open>
  \<^verbatim>\<open>resizeImage\<close>: the promise and the shared canvas afterwards. The reader's and the
  element's error events reject. The context is taken with a non-null assertion: without
  a context the first use of it throws inside the load handler, after the canvas was
  sized, and the promise never settles. The blob is passed to \<^verbatim>\<open>resolve\<close> with a
  non-null assertion and no test, so a \<^verbatim>\<open>null\<close> blob resolves the promise.
\<close>

definition resizeImage ::
  "env \<Rightarrow> canvas \<Rightarrow> jsfile \<Rightarrow> number \<Rightarrow> number \<Rightarrow> blob option promise \<times> canvas" where
  "resizeImage e canvas file width height =
     (case readAsDataURL e file of
        None \<Rightarrow> (Rejected ReaderError, canvas)
      | Some url \<Rightarrow>
         (case loadImage e url of
            None \<Rightarrow> (Rejected ImageLoadError, canvas)
          | Some img \<Rightarrow>
             (if getContext e canvas
              then (let canvas = paintCanvas (sizeCanvas canvas width height) img width height
                    in (Resolved (toBlob e canvas ''image/jpeg'' (Num (9 / 10))), canvas))
              else (Pending, sizeCanvas canvas width height))))"

section \<open>The orchestrator\<close>

text \<open>
  The state of the component: the values held by \<^verbatim>\<open>useState\<close> and \<^verbatim>\<open>useRef\<close>, and the
  form's \<^verbatim>\<open>cover_image\<close> field with its validation error.
\<close>

record state =
  originalPreview :: "string option"
  compressedPreview :: "string option"
  originalSize :: "nat option"
  compressedSize :: "nat option"
  targetWidth :: number
  targetHeight :: number
  crop :: crop
  completedCrop :: "crop option"
  imgRef :: "image option"
  canvasRef :: canvas
  cover_image :: "jsfile option"
  cover_image_error :: "string option"

text \<open>What a run does that is not a state update: the stages it invokes and what it logs.\<close>

datatype event =
    Invoked_crop image crop string
  | Invoked_compress jsfile options
  | Invoked_resize jsfile number number
  | Console_error error

record run =
  outcome :: "unit promise"
  final :: state
  log :: "event list"

text \<open>Lines 147 to 151: the options of the compress stage.\<close>

definition compressOptions :: "state \<Rightarrow> options" where
  "compressOptions s =
     \<lparr>maxSizeMB = Num 5,
      maxWidthOrHeight = Math_max (targetWidth s) (targetHeight s),
      useWebWorker = True\<rparr>"

text \<open>Lines 168 to 173: the \<^verbatim>\<open>catch\<close> block.\<close>

definition catchBlock :: "state \<Rightarrow> event list \<Rightarrow> error \<Rightarrow> run" where
  "catchBlock s evs err =
     \<lparr>outcome = Resolved (),
      final = s\<lparr>compressedPreview := None, compressedSize := None,
                cover_image := None, cover_image_error := None\<rparr>,
      log = evs @ [Console_error err]\<rparr>"

text \<open>
  Lines 156 to 167: the output file, the preview and size once the reader has loaded it
  (nothing when it has not), and the form value.
\<close>

definition publish :: "env \<Rightarrow> state \<Rightarrow> jsfile \<Rightarrow> blob option \<Rightarrow> state" where
  "publish e s file resizedBlob =
     (let resizedFile = \<lparr>parts = [resizedBlob], name = name file, ftype = ''image/jpeg''\<rparr>;
          s = (case readAsDataURL e resizedFile of
                 None \<Rightarrow> s
               | Some result \<Rightarrow>
                   s\<lparr>compressedPreview := Some result,
                     compressedSize := Some (fileSize e resizedFile)\<rparr>)
      in s\<lparr>cover_image := Some resizedFile, cover_image_error := None\<rparr>)"

text \<open>\<^verbatim>\<open>processImage\<close>, lines 139 to 174.\<close>

definition processImage :: "env \<Rightarrow> state \<Rightarrow> jsfile \<Rightarrow> run" where
  "processImage e s file =
     (case (completedCrop s, imgRef s) of
        (Some cc, Some img) \<Rightarrow>
          (let evs = [Invoked_crop img cc (name file)] in
           case cropImage e img cc (name file) of
             Rejected err \<Rightarrow> catchBlock s evs err
           | Pending \<Rightarrow> \<lparr>outcome = Pending, final = s, log = evs\<rparr>
           | Resolved croppedFile \<Rightarrow>
              (let options = compressOptions s;
                   evs = evs @ [Invoked_compress croppedFile options] in
               case imageCompression e croppedFile options of
                 Inl err \<Rightarrow> catchBlock s evs err
               | Inr compressedFile \<Rightarrow>
                  (let evs = evs @ [Invoked_resize compressedFile (targetWidth s) (targetHeight s)] in
                   case resizeImage e (canvasRef s) compressedFile (targetWidth s) (targetHeight s) of
                     (Rejected err, canvas) \<Rightarrow> catchBlock (s\<lparr>canvasRef := canvas\<rparr>) evs err
                   | (Pending, canvas) \<Rightarrow>
                       \<lparr>outcome = Pending, final = s\<lparr>canvasRef := canvas\<rparr>, log = evs\<rparr>
                   | (Resolved resizedBlob, canvas) \<Rightarrow>
                       \<lparr>outcome = Resolved (),
                        final = publish e (s\<lparr>canvasRef := canvas\<rparr>) file resizedBlob,
                        log = evs\<rparr>)))
      | _ \<Rightarrow> \<lparr>outcome = Resolved (), final = s, log = []\<rparr>)"

section \<open>Concrete inputs\<close>

text \<open>
  A 4000 by 3000 photo displayed at 400 by 300, a 200 by 100 crop region, the image the
  resize stage decodes, and an environment in which every step succeeds, except that a
  canvas of zero width or height has no data to serialize.
\<close>

definition exImage :: image where
  "exImage = \<lparr>img_width = 400, img_height = 300, naturalWidth = 4000, naturalHeight = 3000,
     img_src = ''data:original''\<rparr>"

definition exDecoded :: image where
  "exDecoded = \<lparr>img_width = 200, img_height = 100, naturalWidth = 200, naturalHeight = 100,
     img_src = ''data:compressed''\<rparr>"

definition exCrop :: crop where
  "exCrop = \<lparr>crop_unit = Px, crop_x = Num 20, crop_y = Num 10, crop_width = Num 200, crop_height = Num 100\<rparr>"

definition exFile :: jsfile where
  "exFile = \<lparr>parts = [Some (Bytes ''photo'')], name = ''photo.png'', ftype = ''image/png''\<rparr>"

definition exEnv :: env where
  "exEnv = \<lparr>getContext = (\<lambda>c. True),
     serializes = (\<lambda>c ty q. 0 < cwidth c \<and> 0 < cheight c),
     imageCompression = (\<lambda>f opts. Inr f),
     readAsDataURL = (\<lambda>f. Some ''data:compressed''),
     loadImage = (\<lambda>url. Some exDecoded),
     blobSize = (\<lambda>b. 1000)\<rparr>"

definition exState :: state where
  "exState = \<lparr>originalPreview = Some ''data:original'', compressedPreview = Some ''data:old'',
     originalSize = Some 5000, compressedSize = Some 900,
     targetWidth = Num 600, targetHeight = Num 400,
     crop = exCrop, completedCrop = Some exCrop, imgRef = Some exImage,
     canvasRef = createCanvas, cover_image = Some exFile, cover_image_error = None\<rparr>"

section \<open>Canvas sizes\<close>

lemma toUint32_floor:
  assumes "0 \<le> a" and "a < 4294967296"
  shows "toUint32 (Num a) = nat \<lfloor>a\<rfloor>"
proof -
  have "0 \<le> \<lfloor>a\<rfloor>" using assms(1) by simp
  moreover have "\<lfloor>a\<rfloor> < 4294967296" using assms(2) by (simp add: floor_less_iff)
  ultimately have "\<lfloor>a\<rfloor> mod 2 ^ 32 = \<lfloor>a\<rfloor>" by simp
  then show ?thesis using assms(1) by simp
qed

lemma reflectUnsignedLong_floor:
  assumes "0 \<le> a" and "a < 2147483648"
  shows "reflectUnsignedLong dflt (Num a) = nat \<lfloor>a\<rfloor>"
proof -
  have "\<lfloor>a\<rfloor> < 2147483648" using assms(2) by (simp add: floor_less_iff)
  then have "nat \<lfloor>a\<rfloor> \<le> 2147483647" by arith
  moreover have "toUint32 (Num a) = nat \<lfloor>a\<rfloor>"
    using assms by (intro toUint32_floor) simp_all
  ultimately show ?thesis by (simp add: reflectUnsignedLong_def)
qed

lemma reflectUnsignedLong_nat:
  assumes "n \<le> 2147483647"
  shows "reflectUnsignedLong dflt (Num (real n)) = n"
  using assms reflectUnsignedLong_floor [of "real n" dflt] by simp

text \<open>
  The conversion at work: a fraction is dropped, a negative value and a value from
  \<open>2 ^ 31\<close> on fall back to the default, \<open>2 ^ 32 + 600\<close> wraps to 600, NaN and the
  infinities give 0.
\<close>

lemma reflectUnsignedLong_examples:
  "reflectUnsignedLong 300 (Num (6007 / 10)) = 600"
  "reflectUnsignedLong 300 (Num (- 600)) = 300"
  "reflectUnsignedLong 150 (Num (- (1 / 2))) = 0"
  "reflectUnsignedLong 300 (Num 2147483648) = 300"
  "reflectUnsignedLong 300 (Num 4294967896) = 600"
  "reflectUnsignedLong 300 NaN = 0"
  "reflectUnsignedLong 150 PosInf = 0"
  by (simp_all add: reflectUnsignedLong_def)

lemma sizeCanvas_eq:
  "sizeCanvas c w h = \<lparr>cwidth = reflectUnsignedLong 300 w, cheight = reflectUnsignedLong 150 h,
                       fillStyle = ''#000000'', ops = []\<rparr>"
  by (simp add: sizeCanvas_def setWidth_def setHeight_def)

lemma paintCanvas_dims:
  "cwidth (paintCanvas c img w h) = cwidth c \<and> cheight (paintCanvas c img w h) = cheight c"
  by (simp add: paintCanvas_def Let_def)

lemma resizeImage_resolved_size:
  assumes "fst (resizeImage e cv f width height) = Resolved (Some b)"
  shows "\<exists>c. b = CanvasBlob c ''image/jpeg'' (Num (9 / 10))
           \<and> cwidth c = reflectUnsignedLong 300 width
           \<and> cheight c = reflectUnsignedLong 150 height"
  using assms
  by (auto simp: resizeImage_def toBlob_def Let_def sizeCanvas_eq paintCanvas_dims
      split: option.splits if_splits)

section \<open>The resize stage: output size and placement\<close>

text \<open>
  Claim C1, amended. For every file, every shared canvas and every positive integer
  target width and height up to 2147483647, whatever the aspect ratio of the decoded
  image: when the file is read and decoded, a context is obtained and the canvas
  serializes, the resize stage resolves with the JPEG encoding (quality 0.9) of a canvas
  whose width and height are exactly the target width and height; and no blob the stage
  ever resolves with has another size.
\<close>

theorem resizeImage_output_dimensions:
  fixes w h :: nat
  assumes "0 < w" and "w \<le> 2147483647" and "0 < h" and "h \<le> 2147483647"
  shows "(readAsDataURL e f = Some url \<and> loadImage e url = Some img \<and> getContext e cv \<and>
      serializes e
        (paintCanvas (sizeCanvas cv (Num (real w)) (Num (real h))) img
           (Num (real w)) (Num (real h)))
        ''image/jpeg'' (Num (9 / 10)) \<longrightarrow>
      (\<exists>c. fst (resizeImage e cv f (Num (real w)) (Num (real h)))
             = Resolved (Some (CanvasBlob c ''image/jpeg'' (Num (9 / 10)))) \<and>
           cwidth c = w \<and> cheight c = h \<and>
           snd (resizeImage e cv f (Num (real w)) (Num (real h))) = c))
   \<and> (\<forall>b. fst (resizeImage e cv f (Num (real w)) (Num (real h))) = Resolved (Some b) \<longrightarrow>
      (\<exists>c. b = CanvasBlob c ''image/jpeg'' (Num (9 / 10)) \<and> cwidth c = w \<and> cheight c = h))"
proof -
  have rw: "reflectUnsignedLong 300 (Num (real w)) = w"
    using assms(2) by (rule reflectUnsignedLong_nat)
  have rh: "reflectUnsignedLong 150 (Num (real h)) = h"
    using assms(4) by (rule reflectUnsignedLong_nat)
  show ?thesis
    by (auto simp: resizeImage_def toBlob_def Let_def sizeCanvas_eq paintCanvas_dims rw rh
        split: option.splits if_splits)
qed

theorem resizeImage_output_dimensions_witness:
  "fst (resizeImage exEnv createCanvas exFile (Num 600) (Num 400))
     = Resolved (Some (CanvasBlob
         (snd (resizeImage exEnv createCanvas exFile (Num 600) (Num 400)))
         ''image/jpeg'' (Num (9 / 10))))
   \<and> cwidth (snd (resizeImage exEnv createCanvas exFile (Num 600) (Num 400))) = 600
   \<and> cheight (snd (resizeImage exEnv createCanvas exFile (Num 600) (Num 400))) = 400"
  using resizeImage_output_dimensions
    [of 600 400 exEnv exFile "''data:compressed''" exDecoded createCanvas]
  by (simp add: exEnv_def paintCanvas_def sizeCanvas_eq reflectUnsignedLong_floor Let_def)

text \<open>
  Claim C1 as stated fails for large positive integers. The target width 4294967896 is
  \<open>2 ^ 32 + 600\<close>: the canvas, and so the output image, is 600 wide. The target width
  2147483648 is out of the attribute's range: the canvas falls back to 300.
\<close>

theorem resizeImage_large_target_wraps:
  "fst (resizeImage exEnv createCanvas exFile (Num 4294967896) (Num 400))
     = Resolved (Some (CanvasBlob
         (snd (resizeImage exEnv createCanvas exFile (Num 4294967896) (Num 400)))
         ''image/jpeg'' (Num (9 / 10))))
   \<and> cwidth (snd (resizeImage exEnv createCanvas exFile (Num 4294967896) (Num 400))) = 600
   \<and> cheight (snd (resizeImage exEnv createCanvas exFile (Num 4294967896) (Num 400))) = 400
   \<and> cwidth (snd (resizeImage exEnv createCanvas exFile (Num 2147483648) (Num 400))) = 300"
  by (simp add: resizeImage_def toBlob_def exEnv_def paintCanvas_def sizeCanvas_eq
      reflectUnsignedLong_def Let_def)

text \<open>
  Claim C2. The two aspect ratios are the quotients of the image's and of the target's
  width and height. When the image's ratio is greater than the target's, the drawn width
  is the target width, the drawn height is the width divided by the image's ratio, the
  horizontal offset is 0 and the vertical offset is half of what the drawn height leaves
  of the target height. Otherwise, equal ratios included, the drawn height is the target
  height, the drawn width is the height times the image's ratio, the vertical offset is 0
  and the horizontal offset is half of what the drawn width leaves. For an image of
  positive size and finite targets the space left after the drawn image equals the offset
  before it, on both axes: the padding is symmetric.
\<close>

theorem resizeLayout_branches:
  "imageAspectRatio (resizeLayout img width height)
     = jdiv (Num (real (img_width img))) (Num (real (img_height img)))
   \<and> targetAspectRatio (resizeLayout img width height) = jdiv width height
   \<and> (if jgt (imageAspectRatio (resizeLayout img width height))
             (targetAspectRatio (resizeLayout img width height))
      then drawWidth (resizeLayout img width height) = width
         \<and> drawHeight (resizeLayout img width height)
             = jdiv width (imageAspectRatio (resizeLayout img width height))
         \<and> offsetX (resizeLayout img width height) = Num 0
         \<and> offsetY (resizeLayout img width height)
             = jdiv (jsub height (drawHeight (resizeLayout img width height))) (Num 2)
      else drawHeight (resizeLayout img width height) = height
         \<and> drawWidth (resizeLayout img width height)
             = jmul height (imageAspectRatio (resizeLayout img width height))
         \<and> offsetY (resizeLayout img width height) = Num 0
         \<and> offsetX (resizeLayout img width height)
             = jdiv (jsub width (drawWidth (resizeLayout img width height))) (Num 2))
   \<and> (0 < img_width img \<and> 0 < img_height img \<and> finite_number width \<and> finite_number height \<longrightarrow>
        jsub (jsub height (drawHeight (resizeLayout img width height)))
             (offsetY (resizeLayout img width height))
          = offsetY (resizeLayout img width height)
      \<and> jsub (jsub width (drawWidth (resizeLayout img width height)))
             (offsetX (resizeLayout img width height))
          = offsetX (resizeLayout img width height))"
proof -
  let ?l = "resizeLayout img width height"
  have ratios: "imageAspectRatio ?l
       = jdiv (Num (real (img_width img))) (Num (real (img_height img)))"
    "targetAspectRatio ?l = jdiv width height"
    by (simp_all add: resizeLayout_def Let_def del: jdiv.simps)
  have wide: "drawWidth ?l = width" "drawHeight ?l = jdiv width (imageAspectRatio ?l)"
    "offsetX ?l = Num 0" "offsetY ?l = jdiv (jsub height (drawHeight ?l)) (Num 2)"
    if "jgt (imageAspectRatio ?l) (targetAspectRatio ?l)"
    using that unfolding ratios
    by (simp_all add: resizeLayout_def Let_def del: jdiv.simps)
  have tall: "drawHeight ?l = height" "drawWidth ?l = jmul height (imageAspectRatio ?l)"
    "offsetY ?l = Num 0" "offsetX ?l = jdiv (jsub width (drawWidth ?l)) (Num 2)"
    if "\<not> jgt (imageAspectRatio ?l) (targetAspectRatio ?l)"
    using that unfolding ratios
    by (simp_all add: resizeLayout_def Let_def del: jdiv.simps)
  have sym: "jsub (jsub height (drawHeight ?l)) (offsetY ?l) = offsetY ?l
      \<and> jsub (jsub width (drawWidth ?l)) (offsetX ?l) = offsetX ?l"
    if pos: "0 < img_width img" "0 < img_height img"
      and fin: "finite_number width" "finite_number height"
  proof -
    obtain w h where wh: "width = Num w" "height = Num h"
      using fin by (cases width; cases height) auto
    define r where "r = real (img_width img) / real (img_height img)"
    have nz: "r \<noteq> 0"
      using pos by (simp add: r_def)
    have ia: "imageAspectRatio ?l = Num r"
      using pos by (simp add: ratios r_def)
    have half: "a - d - (a - d) / 2 = (a - d) / 2" for a d :: real
      by (simp add: field_simps)
    show ?thesis
    proof (cases "jgt (imageAspectRatio ?l) (targetAspectRatio ?l)")
      case True
      have "drawHeight ?l = jdiv width (Num r)"
        using wide(2) [OF True] by (simp only: ia)
      then have dh: "drawHeight ?l = Num (w / r)"
        using nz by (simp add: wh(1))
      have "offsetY ?l = jdiv (jsub height (Num (w / r))) (Num 2)"
        using wide(4) [OF True] by (simp only: dh)
      then have oy: "offsetY ?l = Num ((h - w / r) / 2)"
        by (simp add: wh(2))
      have "jsub (jsub height (drawHeight ?l)) (offsetY ?l) = offsetY ?l"
        unfolding dh oy by (simp add: wh(2) half)
      moreover have "jsub (jsub width (drawWidth ?l)) (offsetX ?l) = offsetX ?l"
        unfolding wide(1) [OF True] wide(3) [OF True] by (simp add: wh(1))
      ultimately show ?thesis by simp
    next
      case False
      have "drawWidth ?l = jmul height (Num r)"
        using tall(2) [OF False] by (simp only: ia)
      then have dw: "drawWidth ?l = Num (h * r)"
        by (simp add: wh(2))
      have "offsetX ?l = jdiv (jsub width (Num (h * r))) (Num 2)"
        using tall(4) [OF False] by (simp only: dw)
      then have ox: "offsetX ?l = Num ((w - h * r) / 2)"
        by (simp add: wh(1))
      have "jsub (jsub width (drawWidth ?l)) (offsetX ?l) = offsetX ?l"
        unfolding dw ox by (simp add: wh(1) half)
      moreover have "jsub (jsub height (drawHeight ?l)) (offsetY ?l) = offsetY ?l"
        unfolding tall(1) [OF False] tall(3) [OF False] by (simp add: wh(2))
      ultimately show ?thesis by simp
    qed
  qed
  show ?thesis
    using ratios wide tall sym by presburger
qed

theorem resizeLayout_branches_witness:
  "jgt (imageAspectRatio (resizeLayout exDecoded (Num 600) (Num 400)))
       (targetAspectRatio (resizeLayout exDecoded (Num 600) (Num 400)))
   \<and> resizeLayout exDecoded (Num 600) (Num 400)
       = \<lparr>imageAspectRatio = Num 2, targetAspectRatio = Num (3 / 2),
          drawWidth = Num 600, drawHeight = Num 300, offsetX = Num 0, offsetY = Num 50\<rparr>
   \<and> \<not> jgt (imageAspectRatio (resizeLayout exDecoded (Num 600) (Num 300)))
       (targetAspectRatio (resizeLayout exDecoded (Num 600) (Num 300)))
   \<and> resizeLayout exDecoded (Num 600) (Num 300)
       = \<lparr>imageAspectRatio = Num 2, targetAspectRatio = Num 2,
          drawWidth = Num 600, drawHeight = Num 300, offsetX = Num 0, offsetY = Num 0\<rparr>
   \<and> jsub (jsub (Num 400) (drawHeight (resizeLayout exDecoded (Num 600) (Num 400))))
          (offsetY (resizeLayout exDecoded (Num 600) (Num 400)))
       = offsetY (resizeLayout exDecoded (Num 600) (Num 400))"
  using resizeLayout_branches [of exDecoded "Num 600" "Num 400"]
    resizeLayout_branches [of exDecoded "Num 600" "Num 300"]
  by (simp add: resizeLayout_def exDecoded_def Let_def)

text \<open>
  Scenario 1 of the specification: a 4000 by 3000 image for the target 600 by 400. Its
  ratio 4/3 is not greater than 3/2, so the height is filled and the padding is on the
  left and on the right, a third of 100 pixels each.
\<close>

lemma resizeLayout_scenario_1:
  "resizeLayout (exImage\<lparr>img_width := 4000, img_height := 3000\<rparr>) (Num 600) (Num 400)
     = \<lparr>imageAspectRatio = Num (4 / 3), targetAspectRatio = Num (3 / 2),
        drawWidth = Num (1600 / 3), drawHeight = Num 400,
        offsetX = Num (100 / 3), offsetY = Num 0\<rparr>"
  by (simp add: resizeLayout_def exImage_def Let_def)

text \<open>
  An image that already has the target size is placed over the whole canvas. This is
  arithmetic over exact reals: the rounding of \<^verbatim>\<open>height * (width / height)\<close> in IEEE
  doubles is outside the model.
\<close>

lemma resizeLayout_same_size:
  assumes "0 < img_width img" and "0 < img_height img"
  shows "resizeLayout img (Num (real (img_width img))) (Num (real (img_height img)))
       = \<lparr>imageAspectRatio = Num (real (img_width img) / real (img_height img)),
          targetAspectRatio = Num (real (img_width img) / real (img_height img)),
          drawWidth = Num (real (img_width img)), drawHeight = Num (real (img_height img)),
          offsetX = Num 0, offsetY = Num 0\<rparr>"
  using assms by (simp add: resizeLayout_def Let_def)

section \<open>The crop stage: surface and source rectangle\<close>

lemma cropCanvas_sized:
  "cropCanvas e img cr =
     (let canvas = \<lparr>cwidth = reflectUnsignedLong 300 (crop_width cr),
                     cheight = reflectUnsignedLong 150 (crop_height cr),
                     fillStyle = ''#000000'', ops = []\<rparr>
      in if getContext e canvas
         then canvas\<lparr>ops :=
                [DrawImage9 img
                   (jmul (crop_x cr)
                      (jdiv (Num (real (naturalWidth img))) (Num (real (img_width img)))))
                   (jmul (crop_y cr)
                      (jdiv (Num (real (naturalHeight img))) (Num (real (img_height img)))))
                   (jmul (crop_width cr)
                      (jdiv (Num (real (naturalWidth img))) (Num (real (img_width img)))))
                   (jmul (crop_height cr)
                      (jdiv (Num (real (naturalHeight img))) (Num (real (img_height img)))))
                   (Num 0) (Num 0) (crop_width cr) (crop_height cr)]\<rparr>
         else canvas)"
  by (simp add: cropCanvas_def createCanvas_def setWidth_def setHeight_def Let_def
      del: jdiv.simps jmul.simps)

text \<open>
  Claim C3, amended. For a crop region with finite coordinates and a width and height
  from 0 to below \<open>2 ^ 31\<close>, on an image displayed at a positive size, the crop stage's
  canvas takes the region's displayed width and height with their fractions dropped,
  exactly the region's width and height when these are whole numbers, and not the size
  scaled to the natural resolution. When a context is obtained, the one drawing call
  copies, onto the rectangle at (0, 0) of the region's width and height, the source
  rectangle whose x and width are the region's multiplied by
  \<^verbatim>\<open>scaleX = naturalWidth / width\<close> and whose y and height are the region's multiplied
  by \<^verbatim>\<open>scaleY = naturalHeight / height\<close>. The file the stage resolves with encodes this
  canvas.
\<close>

theorem cropCanvas_surface_and_source:
  assumes "crop_x cr = Num x" and "crop_y cr = Num y"
    and "crop_width cr = Num w" and "crop_height cr = Num h"
    and "0 \<le> w" and "w < 2147483648" and "0 \<le> h" and "h < 2147483648"
    and "0 < img_width img" and "0 < img_height img"
  shows "cwidth (cropCanvas e img cr) = nat \<lfloor>w\<rfloor>
   \<and> cheight (cropCanvas e img cr) = nat \<lfloor>h\<rfloor>
   \<and> (w \<in> \<int> \<longrightarrow> real (cwidth (cropCanvas e img cr)) = w)
   \<and> (h \<in> \<int> \<longrightarrow> real (cheight (cropCanvas e img cr)) = h)
   \<and> (getContext e \<lparr>cwidth = nat \<lfloor>w\<rfloor>, cheight = nat \<lfloor>h\<rfloor>,
                      fillStyle = ''#000000'', ops = []\<rparr> \<longrightarrow>
        ops (cropCanvas e img cr) =
          [DrawImage9 img
             (Num (x * (real (naturalWidth img) / real (img_width img))))
             (Num (y * (real (naturalHeight img) / real (img_height img))))
             (Num (w * (real (naturalWidth img) / real (img_width img))))
             (Num (h * (real (naturalHeight img) / real (img_height img))))
             (Num 0) (Num 0) (Num w) (Num h)])
   \<and> (\<forall>f. cropImage e img cr n = Resolved f \<longrightarrow>
        parts f = [Some (CanvasBlob (cropCanvas e img cr) ''image/jpeg'' (Num 1))])"
proof -
  have rw: "reflectUnsignedLong 300 (Num w) = nat \<lfloor>w\<rfloor>"
    using assms(5,6) by (rule reflectUnsignedLong_floor)
  have rh: "reflectUnsignedLong 150 (Num h) = nat \<lfloor>h\<rfloor>"
    using assms(7,8) by (rule reflectUnsignedLong_floor)
  have sx: "jdiv (Num (real (naturalWidth img))) (Num (real (img_width img)))
      = Num (real (naturalWidth img) / real (img_width img))"
    using assms(9) by simp
  have sy: "jdiv (Num (real (naturalHeight img))) (Num (real (img_height img)))
      = Num (real (naturalHeight img) / real (img_height img))"
    using assms(10) by simp
  have dims: "cwidth (cropCanvas e img cr) = nat \<lfloor>w\<rfloor>"
    "cheight (cropCanvas e img cr) = nat \<lfloor>h\<rfloor>"
    by (simp_all add: cropCanvas_sized assms(3,4) rw rh Let_def del: jdiv.simps jmul.simps)
  have iw: "real (nat \<lfloor>w\<rfloor>) = w" if "w \<in> \<int>"
    using that assms(5) by (auto elim!: Ints_cases)
  have ih: "real (nat \<lfloor>h\<rfloor>) = h" if "h \<in> \<int>"
    using that assms(7) by (auto elim!: Ints_cases)
  have draw: "ops (cropCanvas e img cr) =
          [DrawImage9 img
             (Num (x * (real (naturalWidth img) / real (img_width img))))
             (Num (y * (real (naturalHeight img) / real (img_height img))))
             (Num (w * (real (naturalWidth img) / real (img_width img))))
             (Num (h * (real (naturalHeight img) / real (img_height img))))
             (Num 0) (Num 0) (Num w) (Num h)]"
    if "getContext e \<lparr>cwidth = nat \<lfloor>w\<rfloor>, cheight = nat \<lfloor>h\<rfloor>,
                      fillStyle = ''#000000'', ops = []\<rparr>"
    using that
    by (simp add: cropCanvas_sized rw rh sx sy assms(1-4) Let_def del: jdiv.simps)
  have enc: "parts f = [Some (CanvasBlob (cropCanvas e img cr) ''image/jpeg'' (Num 1))]"
    if "cropImage e img cr n = Resolved f" for f
    using that by (auto simp: cropImage_def toBlob_def split: option.splits if_splits)
  show ?thesis
    using dims iw ih draw enc by simp
qed

text \<open>
  A 200 by 100 region at (20, 10) of a photo shown at a tenth of its natural size: the
  canvas is 200 by 100, the source rectangle is 2000 by 1000 at (200, 100).
\<close>

theorem cropCanvas_surface_and_source_witness:
  "cropCanvas exEnv exImage exCrop =
     \<lparr>cwidth = 200, cheight = 100, fillStyle = ''#000000'',
      ops = [DrawImage9 exImage (Num 200) (Num 100) (Num 2000) (Num 1000)
               (Num 0) (Num 0) (Num 200) (Num 100)]\<rparr>
   \<and> cropImage exEnv exImage exCrop ''photo.png'' =
       Resolved \<lparr>parts = [Some (CanvasBlob (cropCanvas exEnv exImage exCrop) ''image/jpeg'' (Num 1))],
                 name = ''photo.png'', ftype = ''image/jpeg''\<rparr>"
  using cropCanvas_surface_and_source
    [of exCrop 20 10 200 100 exImage exEnv "''photo.png''"]
  by (simp add: cropCanvas_sized cropImage_def toBlob_def reflectUnsignedLong_floor Let_def
      exEnv_def exImage_def exCrop_def)

text \<open>
  Claim C3 as stated fails for a region whose size is not whole: a region of 200.5 by
  100.75 gives a canvas of 200 by 100.
\<close>

theorem cropCanvas_fraction_dropped:
  "cwidth (cropCanvas exEnv exImage
             (exCrop\<lparr>crop_width := Num (401 / 2), crop_height := Num (403 / 4)\<rparr>)) = 200
   \<and> cheight (cropCanvas exEnv exImage
             (exCrop\<lparr>crop_width := Num (401 / 2), crop_height := Num (403 / 4)\<rparr>)) = 100"
  by (simp add: cropCanvas_sized reflectUnsignedLong_floor Let_def exEnv_def exCrop_def)

text \<open>
  Claim C9, amended. Without a 2D context for its canvas the crop stage draws nothing:
  for a region whose width and height are from 0 to below \<open>2 ^ 31\<close>, the canvas has the
  region's width and height with their fractions dropped and no drawing call on it. The
  stage goes on to serialize this blank canvas and its result is the result of that
  serialization: when there is data it resolves with the encoding of the blank canvas
  under the given file name, when there is none it rejects with
  \<^verbatim>\<open>Error('Canvas is empty')\<close>.
\<close>

theorem cropImage_without_context:
  assumes "crop_width cr = Num w" and "crop_height cr = Num h"
    and "0 \<le> w" and "w < 2147483648" and "0 \<le> h" and "h < 2147483648"
    and "\<not> getContext e \<lparr>cwidth = nat \<lfloor>w\<rfloor>, cheight = nat \<lfloor>h\<rfloor>,
                          fillStyle = ''#000000'', ops = []\<rparr>"
  shows "cropCanvas e img cr
           = \<lparr>cwidth = nat \<lfloor>w\<rfloor>, cheight = nat \<lfloor>h\<rfloor>, fillStyle = ''#000000'', ops = []\<rparr>
       \<and> (serializes e \<lparr>cwidth = nat \<lfloor>w\<rfloor>, cheight = nat \<lfloor>h\<rfloor>,
                         fillStyle = ''#000000'', ops = []\<rparr> ''image/jpeg'' (Num 1) \<longrightarrow>
            cropImage e img cr n
              = Resolved
                  \<lparr>parts = [Some (CanvasBlob
                               \<lparr>cwidth = nat \<lfloor>w\<rfloor>, cheight = nat \<lfloor>h\<rfloor>,
                                fillStyle = ''#000000'', ops = []\<rparr> ''image/jpeg'' (Num 1))],
                   name = n, ftype = ''image/jpeg''\<rparr>)
       \<and> (\<not> serializes e \<lparr>cwidth = nat \<lfloor>w\<rfloor>, cheight = nat \<lfloor>h\<rfloor>,
                         fillStyle = ''#000000'', ops = []\<rparr> ''image/jpeg'' (Num 1) \<longrightarrow>
            cropImage e img cr n = Rejected CanvasEmpty)"
proof -
  have rw: "reflectUnsignedLong 300 (Num w) = nat \<lfloor>w\<rfloor>"
    using assms(3,4) by (rule reflectUnsignedLong_floor)
  have rh: "reflectUnsignedLong 150 (Num h) = nat \<lfloor>h\<rfloor>"
    using assms(5,6) by (rule reflectUnsignedLong_floor)
  have c: "cropCanvas e img cr
           = \<lparr>cwidth = nat \<lfloor>w\<rfloor>, cheight = nat \<lfloor>h\<rfloor>, fillStyle = ''#000000'', ops = []\<rparr>"
    using assms(7)
    by (simp add: cropCanvas_sized assms(1,2) rw rh Let_def del: jdiv.simps jmul.simps)
  show ?thesis
    unfolding cropImage_def c by (simp add: toBlob_def)
qed

theorem cropImage_without_context_witness:
  "cropImage (exEnv\<lparr>getContext := (\<lambda>c. False)\<rparr>) exImage exCrop ''photo.png''
     = Resolved
         \<lparr>parts = [Some (CanvasBlob
                      \<lparr>cwidth = 200, cheight = 100, fillStyle = ''#000000'', ops = []\<rparr>
                      ''image/jpeg'' (Num 1))],
          name = ''photo.png'', ftype = ''image/jpeg''\<rparr>"
  using cropImage_without_context
    [of exCrop 200 100 "exEnv\<lparr>getContext := (\<lambda>c. False)\<rparr>" exImage "''photo.png''"]
  by (simp add: exEnv_def exCrop_def)

text \<open>
  Claim C9 as stated fails twice. Without a context, a region of 200.5 by 100.75 resolves
  with a blank image of 200 by 100, not of the requested size; and a region of height 0.5
  gives a canvas of height 0, which has no data, so that the stage does fail: it rejects.
\<close>

theorem cropImage_without_context_fails:
  "cropImage (exEnv\<lparr>getContext := (\<lambda>c. False)\<rparr>) exImage
       (exCrop\<lparr>crop_width := Num (401 / 2), crop_height := Num (403 / 4)\<rparr>) ''photo.png''
     = Resolved
         \<lparr>parts = [Some (CanvasBlob
                      \<lparr>cwidth = 200, cheight = 100, fillStyle = ''#000000'', ops = []\<rparr>
                      ''image/jpeg'' (Num 1))],
          name = ''photo.png'', ftype = ''image/jpeg''\<rparr>
   \<and> cropImage (exEnv\<lparr>getContext := (\<lambda>c. False)\<rparr>) exImage
       (exCrop\<lparr>crop_height := Num (1 / 2)\<rparr>) ''photo.png''
     = Rejected CanvasEmpty"
  by (simp add: cropImage_def cropCanvas_sized toBlob_def reflectUnsignedLong_floor Let_def
      exEnv_def exCrop_def)

section \<open>Serialization without data\<close>

text \<open>
  Claim C6. Both stages should reject when \<^verbatim>\<open>toBlob\<close> hands its callback no data. The
  crop stage does. The resize stage does not: for the target 600 by 0 the canvas has no
  pixels and does not serialize, and the promise resolves with \<^verbatim>\<open>null\<close>; the crop stage
  on a region of height 0 rejects with \<^verbatim>\<open>Error('Canvas is empty')\<close>.
\<close>

theorem resizeImage_null_blob_resolves:
  "fst (resizeImage exEnv createCanvas exFile (Num 600) (Num 0)) = Resolved None
   \<and> cropImage exEnv exImage (exCrop\<lparr>crop_height := Num 0\<rparr>) ''photo.png''
       = Rejected CanvasEmpty"
  by (simp add: resizeImage_def cropImage_def cropCanvas_sized toBlob_def
      sizeCanvas_eq paintCanvas_def reflectUnsignedLong_floor exEnv_def exCrop_def Let_def)

text \<open>The crop stage rejects exactly when its canvas yields no data.\<close>

lemma cropImage_rejects_iff_no_data:
  "(cropImage e img cr n = Rejected err)
     = (toBlob e (cropCanvas e img cr) ''image/jpeg'' (Num 1) = None \<and> err = CanvasEmpty)"
  by (auto simp: cropImage_def split: option.splits)

text \<open>The resize stage rejects only on the reader's or the element's error event.\<close>

lemma resizeImage_rejects_iff:
  "(fst (resizeImage e cv f w h) = Rejected err)
     = (readAsDataURL e f = None \<and> err = ReaderError
        \<or> (\<exists>url. readAsDataURL e f = Some url \<and> loadImage e url = None
               \<and> err = ImageLoadError))"
  by (auto simp: resizeImage_def Let_def split: option.splits)

section \<open>The orchestrator: early return, failures, success\<close>

text \<open>
  Claim C5, amended. With no completed crop region the orchestrator returns at once: its
  promise resolves, nothing is logged, no error of any kind is raised, and the state is
  the state it started from, in every field.
\<close>

theorem processImage_no_crop_noop:
  assumes "completedCrop s = None"
  shows "processImage e s f = \<lparr>outcome = Resolved (), final = s, log = []\<rparr>"
  using assms by (simp add: processImage_def)

theorem processImage_no_crop_noop_witness:
  "completedCrop (exState\<lparr>completedCrop := None\<rparr>) = None
   \<and> processImage exEnv (exState\<lparr>completedCrop := None\<rparr>) exFile
       = \<lparr>outcome = Resolved (), final = exState\<lparr>completedCrop := None\<rparr>, log = []\<rparr>"
  using processImage_no_crop_noop [of "exState\<lparr>completedCrop := None\<rparr>" exEnv exFile]
  by simp

text \<open>
  Claim C5 as stated asks for a \<^verbatim>\<open>MissingCropError\<close>. On the state without a completed
  crop the run resolves and its log is empty: no error is produced.
\<close>

theorem processImage_no_crop_resolves_silently:
  "outcome (processImage exEnv (exState\<lparr>completedCrop := None\<rparr>) exFile) = Resolved ()
   \<and> log (processImage exEnv (exState\<lparr>completedCrop := None\<rparr>) exFile) = []"
  by (simp add: processImage_def exState_def)

lemma resizeImage_rejected_canvas:
  "fst (resizeImage e cv f w h) = Rejected err \<Longrightarrow> snd (resizeImage e cv f w h) = cv"
  by (auto simp: resizeImage_def Let_def split: option.splits if_splits)

text \<open>
  When the promise of the crop stage, of the compress stage or of the resize stage
  rejects, the run ends in the state it started from with the compressed preview, the
  compressed size and the form's cover image (with its error) cleared. The original
  preview and the original size are as before, the run's promise resolves, and the error
  is the last thing logged.
\<close>

lemma processImage_rejection_clears_output:
  assumes "completedCrop s = Some cc" and "imgRef s = Some img"
    and "cropImage e img cc (name f) = Rejected err
       \<or> (\<exists>cf. cropImage e img cc (name f) = Resolved cf
              \<and> imageCompression e cf (compressOptions s) = Inl err)
       \<or> (\<exists>cf zf. cropImage e img cc (name f) = Resolved cf
              \<and> imageCompression e cf (compressOptions s) = Inr zf
              \<and> fst (resizeImage e (canvasRef s) zf (targetWidth s) (targetHeight s))
                  = Rejected err)"
  shows "final (processImage e s f)
           = s\<lparr>compressedPreview := None, compressedSize := None,
               cover_image := None, cover_image_error := None\<rparr>
       \<and> compressedPreview (final (processImage e s f)) = None
       \<and> compressedSize (final (processImage e s f)) = None
       \<and> cover_image (final (processImage e s f)) = None
       \<and> originalPreview (final (processImage e s f)) = originalPreview s
       \<and> originalSize (final (processImage e s f)) = originalSize s
       \<and> outcome (processImage e s f) = Resolved ()
       \<and> last (log (processImage e s f)) = Console_error err"
proof -
  have "\<exists>evs. processImage e s f = catchBlock s evs err"
    using assms(3)
  proof (elim disjE exE conjE)
    assume "cropImage e img cc (name f) = Rejected err"
    then show ?thesis
      by (simp add: processImage_def assms(1,2) catchBlock_def)
  next
    fix cf
    assume "cropImage e img cc (name f) = Resolved cf"
      "imageCompression e cf (compressOptions s) = Inl err"
    then show ?thesis
      by (simp add: processImage_def assms(1,2) catchBlock_def Let_def)
  next
    fix cf zf
    assume a: "cropImage e img cc (name f) = Resolved cf"
      "imageCompression e cf (compressOptions s) = Inr zf"
      "fst (resizeImage e (canvasRef s) zf (targetWidth s) (targetHeight s)) = Rejected err"
    obtain p cv where r: "resizeImage e (canvasRef s) zf (targetWidth s) (targetHeight s) = (p, cv)"
      by (cases "resizeImage e (canvasRef s) zf (targetWidth s) (targetHeight s)")
    have "p = Rejected err" using a(3) r by simp
    moreover have "cv = canvasRef s" using resizeImage_rejected_canvas [OF a(3)] r by simp
    ultimately show ?thesis
      using a(1,2) r by (simp add: processImage_def assms(1,2) catchBlock_def Let_def)
  qed
  then obtain evs where "processImage e s f = catchBlock s evs err" ..
  then show ?thesis
    by (simp add: catchBlock_def)
qed

text \<open>Scenario 4: the compression library rejects.\<close>

lemma processImage_compress_rejection:
  "final (processImage
           (exEnv\<lparr>imageCompression := (\<lambda>f opts. Inl (CompressionFailed ''unsupported''))\<rparr>)
           exState exFile)
     = exState\<lparr>compressedPreview := None, compressedSize := None,
               cover_image := None, cover_image_error := None\<rparr>"
  using processImage_rejection_clears_output
    [of exState exCrop exImage
        "exEnv\<lparr>imageCompression := (\<lambda>f opts. Inl (CompressionFailed ''unsupported''))\<rparr>"
        exFile "CompressionFailed ''unsupported''"]
  by (simp add: exState_def exEnv_def cropImage_def toBlob_def cropCanvas_sized
      reflectUnsignedLong_floor exCrop_def Let_def)

text \<open>
  Claim C4. A failure of any stage should leave the compressed preview, the compressed
  size and the output artifact empty. The rejections above do. The serialization failure
  of the resize stage does not: with target height 0 the canvas has no data, the stage
  resolves with \<^verbatim>\<open>null\<close>, nothing is logged, and the run publishes a file made of that
  \<^verbatim>\<open>null\<close> (4 bytes) as the form's cover image, with a preview and a size, where a
  compressed preview and size of an earlier run should have been cleared.
\<close>

theorem processImage_null_blob_published:
  "fst (resizeImage exEnv createCanvas
          \<lparr>parts = [Some (CanvasBlob (cropCanvas exEnv exImage exCrop) ''image/jpeg'' (Num 1))],
           name = ''photo.png'', ftype = ''image/jpeg''\<rparr> (Num 600) (Num 0)) = Resolved None
   \<and> compressedPreview (exState\<lparr>targetHeight := Num 0\<rparr>) = Some ''data:old''
   \<and> compressedSize (exState\<lparr>targetHeight := Num 0\<rparr>) = Some 900
   \<and> compressedPreview (final (processImage exEnv (exState\<lparr>targetHeight := Num 0\<rparr>) exFile))
       = Some ''data:compressed''
   \<and> compressedSize (final (processImage exEnv (exState\<lparr>targetHeight := Num 0\<rparr>) exFile))
       = Some 4
   \<and> cover_image (final (processImage exEnv (exState\<lparr>targetHeight := Num 0\<rparr>) exFile))
       = Some \<lparr>parts = [None], name = ''photo.png'', ftype = ''image/jpeg''\<rparr>
   \<and> outcome (processImage exEnv (exState\<lparr>targetHeight := Num 0\<rparr>) exFile) = Resolved ()
   \<and> log (processImage exEnv (exState\<lparr>targetHeight := Num 0\<rparr>) exFile) =
       [Invoked_crop exImage exCrop ''photo.png'',
        Invoked_compress
          \<lparr>parts = [Some (CanvasBlob (cropCanvas exEnv exImage exCrop) ''image/jpeg'' (Num 1))],
           name = ''photo.png'', ftype = ''image/jpeg''\<rparr>
          \<lparr>maxSizeMB = Num 5, maxWidthOrHeight = Num 600, useWebWorker = True\<rparr>,
        Invoked_resize
          \<lparr>parts = [Some (CanvasBlob (cropCanvas exEnv exImage exCrop) ''image/jpeg'' (Num 1))],
           name = ''photo.png'', ftype = ''image/jpeg''\<rparr>
          (Num 600) (Num 0)]"
  by (simp add: processImage_def exState_def exEnv_def cropImage_def toBlob_def
      cropCanvas_sized reflectUnsignedLong_floor exCrop_def exFile_def compressOptions_def
      resizeImage_def paintCanvas_def sizeCanvas_eq publish_def fileSize_def Let_def)






lemma cropImage_file_name_type:
  "cropImage e img cr n = Resolved cf \<Longrightarrow> name cf = n \<and> ftype cf = ''image/jpeg''"
  by (auto simp: cropImage_def split: option.splits)

lemma processImage_compress_events:
  "Invoked_compress x opts \<in> set (log (processImage e s f)) \<Longrightarrow> opts = compressOptions s"
  by (auto simp: processImage_def Let_def catchBlock_def
      split: option.splits promise.splits sum.splits prod.splits)

lemma Math_max_finite: "Math_max (Num a) (Num b) = Num (max a b)"
  by (simp add: max_def)

text \<open>
  Claim C10. When all three stages succeed, the form's cover image is a file of type
  \<^verbatim>\<open>image/jpeg\<close>, named as the input file, holding the resize stage's blob; the cropped
  file handed to the compress stage has the same name and type. In every run, each call
  of the compress stage has \<^verbatim>\<open>maxSizeMB = 5\<close> and, as \<^verbatim>\<open>maxWidthOrHeight\<close>, the larger
  of the target width and the target height (NaN when one of them is NaN).
\<close>

theorem processImage_success_artifact:
  "(completedCrop s = Some cc \<and> imgRef s = Some img
      \<and> cropImage e img cc (name f) = Resolved cf
      \<and> imageCompression e cf (compressOptions s) = Inr zf
      \<and> fst (resizeImage e (canvasRef s) zf (targetWidth s) (targetHeight s)) = Resolved b \<longrightarrow>
      cover_image (final (processImage e s f))
        = Some \<lparr>parts = [b], name = name f, ftype = ''image/jpeg''\<rparr>
      \<and> name cf = name f \<and> ftype cf = ''image/jpeg''
      \<and> Invoked_compress cf (compressOptions s) \<in> set (log (processImage e s f)))
   \<and> (\<forall>x opts. Invoked_compress x opts \<in> set (log (processImage e s f)) \<longrightarrow>
        maxSizeMB opts = Num 5
        \<and> (\<forall>w h. targetWidth s = Num w \<and> targetHeight s = Num h \<longrightarrow>
              maxWidthOrHeight opts = Num (max w h))
        \<and> (targetWidth s = NaN \<or> targetHeight s = NaN \<longrightarrow> maxWidthOrHeight opts = NaN))"
proof -
  have ok: "cover_image (final (processImage e s f))
        = Some \<lparr>parts = [b], name = name f, ftype = ''image/jpeg''\<rparr>
      \<and> name cf = name f \<and> ftype cf = ''image/jpeg''
      \<and> Invoked_compress cf (compressOptions s) \<in> set (log (processImage e s f))"
    if cc: "completedCrop s = Some cc" and im: "imgRef s = Some img"
      and cr: "cropImage e img cc (name f) = Resolved cf"
      and co: "imageCompression e cf (compressOptions s) = Inr zf"
      and re: "fst (resizeImage e (canvasRef s) zf (targetWidth s) (targetHeight s)) = Resolved b"
  proof -
    obtain cv where r: "resizeImage e (canvasRef s) zf (targetWidth s) (targetHeight s)
        = (Resolved b, cv)"
      using re by (cases "resizeImage e (canvasRef s) zf (targetWidth s) (targetHeight s)") simp
    have "processImage e s f =
        \<lparr>outcome = Resolved (), final = publish e (s\<lparr>canvasRef := cv\<rparr>) f b,
         log = [Invoked_crop img cc (name f), Invoked_compress cf (compressOptions s),
                Invoked_resize zf (targetWidth s) (targetHeight s)]\<rparr>"
      by (simp add: processImage_def cc im cr co r Let_def)
    then show ?thesis
      using cropImage_file_name_type [OF cr] by (simp add: publish_def Let_def)
  qed
  have opts: "maxSizeMB opts = Num 5
        \<and> (\<forall>w h. targetWidth s = Num w \<and> targetHeight s = Num h \<longrightarrow>
              maxWidthOrHeight opts = Num (max w h))
        \<and> (targetWidth s = NaN \<or> targetHeight s = NaN \<longrightarrow> maxWidthOrHeight opts = NaN)"
    if "Invoked_compress x opts \<in> set (log (processImage e s f))" for x opts
  proof -
    have o: "opts = compressOptions s"
      using processImage_compress_events [OF that] .
    have "maxWidthOrHeight opts = Num (max w h)"
      if "targetWidth s = Num w" "targetHeight s = Num h" for w h
      using that by (simp only: o compressOptions_def options.simps Math_max_finite)
    moreover have "maxWidthOrHeight opts = NaN"
      if "targetWidth s = NaN \<or> targetHeight s = NaN"
      using that by (auto simp: o compressOptions_def)
    moreover have "maxSizeMB opts = Num 5"
      by (simp add: o compressOptions_def)
    ultimately show ?thesis by blast
  qed
  show ?thesis
    using ok opts by blast
qed

text \<open>A run for the target 400 by 600: the larger side is the height.\<close>

theorem processImage_success_artifact_witness:
  "cover_image (final (processImage exEnv
       (exState\<lparr>targetWidth := Num 400, targetHeight := Num 600\<rparr>) exFile))
     = Some \<lparr>parts = [Some (CanvasBlob
                 (snd (resizeImage exEnv createCanvas
                    \<lparr>parts = [Some (CanvasBlob (cropCanvas exEnv exImage exCrop)
                                ''image/jpeg'' (Num 1))],
                     name = ''photo.png'', ftype = ''image/jpeg''\<rparr> (Num 400) (Num 600)))
                 ''image/jpeg'' (Num (9 / 10)))],
             name = ''photo.png'', ftype = ''image/jpeg''\<rparr>
   \<and> Invoked_compress
        \<lparr>parts = [Some (CanvasBlob (cropCanvas exEnv exImage exCrop) ''image/jpeg'' (Num 1))],
         name = ''photo.png'', ftype = ''image/jpeg''\<rparr>
        \<lparr>maxSizeMB = Num 5, maxWidthOrHeight = Num 600, useWebWorker = True\<rparr>
       \<in> set (log (processImage exEnv
            (exState\<lparr>targetWidth := Num 400, targetHeight := Num 600\<rparr>) exFile))"
  using processImage_success_artifact
    [of "exState\<lparr>targetWidth := Num 400, targetHeight := Num 600\<rparr>" exCrop exImage exEnv
        exFile
        "\<lparr>parts = [Some (CanvasBlob (cropCanvas exEnv exImage exCrop) ''image/jpeg'' (Num 1))],
          name = ''photo.png'', ftype = ''image/jpeg''\<rparr>"
        "\<lparr>parts = [Some (CanvasBlob (cropCanvas exEnv exImage exCrop) ''image/jpeg'' (Num 1))],
          name = ''photo.png'', ftype = ''image/jpeg''\<rparr>"
        "Some (CanvasBlob
                 (snd (resizeImage exEnv createCanvas
                    \<lparr>parts = [Some (CanvasBlob (cropCanvas exEnv exImage exCrop)
                                ''image/jpeg'' (Num 1))],
                     name = ''photo.png'', ftype = ''image/jpeg''\<rparr> (Num 400) (Num 600)))
                 ''image/jpeg'' (Num (9 / 10)))"]
  by (simp add: exState_def exEnv_def exFile_def cropImage_def toBlob_def
      cropCanvas_sized reflectUnsignedLong_floor exCrop_def compressOptions_def resizeImage_def
      paintCanvas_def sizeCanvas_eq Let_def)

end
